theory Spec2Isabelle
  imports Main "HOL-Library.Char_ord" "HOL-Library.List_Lexorder"
begin

section \<open>The diff command of the replicate CLI (cli/pkg/cli/diff.go)\<close>

subsection \<open>Go maps and the order of a range loop\<close>

text \<open>
  A Go \<^verbatim>\<open>map[string]T\<close> is a finite partial function from keys to values: \<open>m k\<close> is
  the two-result lookup \<^verbatim>\<open>v, ok := m[k]\<close> (\<open>None\<close> when \<open>ok\<close> is false) and
  \<open>m(k \<mapsto> v)\<close> is the assignment \<^verbatim>\<open>m[k] = v\<close>.

  A loop \<^verbatim>\<open>for k, v := range m\<close> visits every entry of \<open>m\<close> once, in an order that
  the Go runtime chooses afresh for each loop. The order is therefore an argument of every
  function that has such a loop: a list \<open>ks\<close> of keys. \<open>range_order m ks\<close> says that
  \<open>ks\<close> is an order the runtime may choose for \<open>m\<close>, and \<open>range_entries ks m\<close>
  is the sequence of pairs \<open>(k, v)\<close> that the loop body sees.
\<close>

type_synonym 'v gomap = "string \<rightharpoonup> 'v"

definition range_order :: "'v gomap \<Rightarrow> string list \<Rightarrow> bool" where
  "range_order m ks \<longleftrightarrow> distinct ks \<and> set ks = dom m"

definition range_entries :: "string list \<Rightarrow> 'v gomap \<Rightarrow> (string \<times> 'v) list" where
  "range_entries ks m = List.map_filter (\<lambda>k. map_option (Pair k) (m k)) ks"

subsection \<open>mapString\<close>

text \<open>
  The result has type \<^verbatim>\<open>map[string][]*string\<close>: a slice of pointers to strings, where
  \<^verbatim>\<open>nil\<close> marks the side that has no value. The pointers point to fresh copies
  (\<^verbatim>\<open>v2 := v\<close>), so a pointer is modelled by the optional string it points to.

  \<^verbatim>\<open>
  func mapString(left, right map[string]string) map[string][]*string {
      result := make(map[string][]*string)
      for k, v := range left {
          if _, ok := right[k]; ok {
              if v != right[k] {
                  v2 := v
                  s := right[k]
                  result[k] = []*string{&v2, &s}
              }
          } else {
              v2 := v
              result[k] = []*string{&v2, nil}
          }
      }
      for k, v := range right {
          if _, ok := left[k]; !ok {
              v2 := v
              result[k] = []*string{nil, &v2}
          }
      }
      return result
  }
  \<close>
\<close>

type_synonym diffMap = "(string option list) gomap"

fun mapString_left :: "string gomap \<Rightarrow> (string \<times> string) list \<Rightarrow> diffMap \<Rightarrow> diffMap" where
  "mapString_left right [] result = result"
| "mapString_left right ((k, v) # kvs) result =
     mapString_left right kvs
       (case right k of
          Some s \<Rightarrow> if v \<noteq> s then result(k \<mapsto> [Some v, Some s]) else result
        | None \<Rightarrow> result(k \<mapsto> [Some v, None]))"

fun mapString_right :: "string gomap \<Rightarrow> (string \<times> string) list \<Rightarrow> diffMap \<Rightarrow> diffMap" where
  "mapString_right left [] result = result"
| "mapString_right left ((k, v) # kvs) result =
     mapString_right left kvs
       (case left k of
          None \<Rightarrow> result(k \<mapsto> [None, Some v])
        | Some _ \<Rightarrow> result)"

text \<open>\<open>lo\<close> and \<open>ro\<close> are the orders of the loops over \<open>left\<close> and over \<open>right\<close>.\<close>

definition mapString :: "string list \<Rightarrow> string list \<Rightarrow> string gomap \<Rightarrow> string gomap \<Rightarrow> diffMap" where
  "mapString lo ro left right =
     mapString_right left (range_entries ro right)
       (mapString_left right (range_entries lo left) Map.empty)"

text \<open>
  The entry that the specification's differ gives to a key, written from the words of the
  specification (section 4.2), to compare \<open>mapString\<close> with.
\<close>

definition diff_entry :: "string gomap \<Rightarrow> string gomap \<Rightarrow> string \<Rightarrow> string option list option" where
  "diff_entry left right k =
     (case left k of
        Some a \<Rightarrow>
          (case right k of
             Some b \<Rightarrow> if a \<noteq> b then Some [Some a, Some b] else None
           | None \<Rightarrow> Some [Some a, None])
      | None \<Rightarrow>
          (case right k of
             Some b \<Rightarrow> Some [None, Some b]
           | None \<Rightarrow> None))"

subsection \<open>Errors, the console and the table writer\<close>

text \<open>
  A call either completes or it does not: \<open>Inl e\<close> is a call that returns the Go error
  \<open>e\<close> or panics, \<open>Inr x\<close> one that returns \<open>x\<close> with a \<^verbatim>\<open>nil\<close> error.
  \<open>Errorf format args\<close> is the error value \<^verbatim>\<open>fmt.Errorf(format, args...)\<close>, kept as the
  format and its arguments; \<open>Panic\<close> is a run-time panic, which like an error ends every
  function of this file at once, since none of them recovers.
\<close>

datatype error = Errorf string "string list" | Panic string

text \<open>
  Modelled from the spec: \<^verbatim>\<open>console.Info\<close>, of package \<^verbatim>\<open>console\<close>, is called by
  the file and is not part of it. The specification (section 4.3) has the notice as an
  informational side effect on a side channel, such as a log line, that is no error and
  does not affect the value returned. The console is the list of the lines printed so far,
  each kept as the format and the arguments of its call.
\<close>

type_synonym console = "(string \<times> string list) list"

definition console_Info :: "console \<Rightarrow> string \<Rightarrow> string list \<Rightarrow> console" where
  "console_Info con format args = con @ [(format, args)]"

text \<open>
  A \<^verbatim>\<open>tabwriter.Writer\<close> buffers the text written to it until it is flushed. It is
  modelled by the texts of the \<^verbatim>\<open>fmt.Fprintf\<close> calls made on it, oldest first. For the
  verb \<^verbatim>\<open>%s\<close> on a string \<^verbatim>\<open>Fprintf\<close> is concatenation, so the callers below pass
  the formatted text.
\<close>

type_synonym tabwriter = "string list"

definition Fprintf :: "tabwriter \<Rightarrow> string \<Rightarrow> tabwriter" where
  "Fprintf w text = w @ [text]"

abbreviation TAB :: char where "TAB \<equiv> CHR 0x09"
abbreviation NL :: char where "NL \<equiv> CHR 0x0A"

text \<open>
  \<^verbatim>\<open>aurora.Aurora\<close> is a library interface; \<open>Bold au s\<close> and \<open>Faint au s\<close> are the
  texts that \<^verbatim>\<open>%s\<close> prints for \<^verbatim>\<open>au.Bold(s)\<close> and \<^verbatim>\<open>au.Faint(s)\<close>.
\<close>

record aurora =
  Bold :: "string \<Rightarrow> string"
  Faint :: "string \<Rightarrow> string"

text \<open>
  \<^verbatim>\<open>
  func br(w *tabwriter.Writer) {
      fmt.Fprintf(w, "\t\t\n")
  }
  func heading(w *tabwriter.Writer, au aurora.Aurora, text string) {
      fmt.Fprintf(w, "%s\t\t\n", au.Bold(text))
  }
  \<close>
\<close>

definition br :: "tabwriter \<Rightarrow> tabwriter" where
  "br w = Fprintf w [TAB, TAB, NL]"

definition heading :: "tabwriter \<Rightarrow> aurora \<Rightarrow> string \<Rightarrow> tabwriter" where
  "heading w au text = Fprintf w (Bold au text @ [TAB, TAB, NL])"

subsection \<open>printMapDiff\<close>

text \<open>
  \<^verbatim>\<open>
  func printMapDiff(w *tabwriter.Writer, au aurora.Aurora, map1, map2 map[string]string) {
      diffMap := mapString(map1, map2)
      type keyVal struct {
          key   string
          value []*string
      }
      keyVals := []keyVal{}
      for k, v := range diffMap {
          keyVals = append(keyVals, keyVal{k, v})
      }
      sort.Slice(keyVals, func(i, j int) bool {
          return keyVals[i].key < keyVals[j].key
      })
      if len(keyVals) > 0 {
          for _, kv := range keyVals {
              left := "(not set)"
              right := "(not set)"
              if kv.value[0] != nil {
                  left = *(kv.value[0])
              }
              if kv.value[1] != nil {
                  right = *(kv.value[1])
              }
              fmt.Fprintf(w, "%s:\t%s\t%s\n", kv.key, left, right)
          }
      } else {
          fmt.Fprintf(w, "%s\t\t\n", au.Faint("(no difference)"))
      }
  }
  \<close>
  Go compares strings byte by byte, which is the lexicographic order of \<open>char list\<close>.
  \<^verbatim>\<open>sort.Slice\<close> is the library's sort by the given \<^verbatim>\<open>less\<close>; it is modelled by
  \<open>sort_key\<close>. The library's sort is not stable and \<open>sort_key\<close> is, which makes no
  difference here: the keys of a map are distinct, so there is one sorted slice only.
  An index into a slice panics when it is out of range.
\<close>

record keyVal =
  key :: string
  "value" :: "string option list"

definition slice_index :: "'a list \<Rightarrow> nat \<Rightarrow> error + 'a" where
  "slice_index xs i =
     (if i < length xs then Inr (xs ! i) else Inl (Panic ''index out of range''))"

text \<open>\<^verbatim>\<open>left := "(not set)"; if p != nil { left = *p }\<close>\<close>

definition not_set_unless :: "string option \<Rightarrow> string" where
  "not_set_unless p = (case p of None \<Rightarrow> ''(not set)'' | Some s \<Rightarrow> s)"

text \<open>The text of \<^verbatim>\<open>"%s:\t%s\t%s\n"\<close> for a key and the two columns.\<close>

definition diff_line :: "string \<Rightarrow> string \<Rightarrow> string \<Rightarrow> string" where
  "diff_line k left right = k @ '':'' @ [TAB] @ left @ [TAB] @ right @ [NL]"

definition no_difference_line :: "aurora \<Rightarrow> string" where
  "no_difference_line au = Faint au ''(no difference)'' @ [TAB, TAB, NL]"

text \<open>The slice \<^verbatim>\<open>keyVals\<close> after \<^verbatim>\<open>sort.Slice\<close>; \<open>do\<close> is the order of the loop over \<^verbatim>\<open>diffMap\<close>.\<close>

definition keyVals :: "string list \<Rightarrow> diffMap \<Rightarrow> keyVal list" where
  "keyVals do diffMap =
     sort_key key (map (\<lambda>(k, v). \<lparr>key = k, value = v\<rparr>) (range_entries do diffMap))"

fun printMapDiff_rows :: "tabwriter \<Rightarrow> keyVal list \<Rightarrow> error + tabwriter" where
  "printMapDiff_rows w [] = Inr w"
| "printMapDiff_rows w (kv # kvs) =
     (case slice_index (value kv) 0 of
        Inl e \<Rightarrow> Inl e
      | Inr p0 \<Rightarrow>
          (case slice_index (value kv) 1 of
             Inl e \<Rightarrow> Inl e
           | Inr p1 \<Rightarrow>
               printMapDiff_rows
                 (Fprintf w (diff_line (key kv) (not_set_unless p0) (not_set_unless p1))) kvs))"

definition printMapDiff ::
  "tabwriter \<Rightarrow> aurora \<Rightarrow> string list \<Rightarrow> string list \<Rightarrow> string list \<Rightarrow>
   string gomap \<Rightarrow> string gomap \<Rightarrow> error + tabwriter" where
  "printMapDiff w au lo ro do map_1 map_2 =
     (let diffMap = mapString lo ro map_1 map_2;
          kvs = keyVals do diffMap
      in if length kvs > 0 then printMapDiff_rows w kvs
         else Inr (Fprintf w (no_difference_line au)))"

text \<open>
  The orders of the three loops of one call of \<open>printMapDiff\<close> that the runtime may choose.
\<close>

definition range_orders :: "string list \<Rightarrow> string list \<Rightarrow> string list \<Rightarrow>
    string gomap \<Rightarrow> string gomap \<Rightarrow> bool" where
  "range_orders lo ro do map_1 map_2 \<longleftrightarrow>
     range_order map_1 lo \<and> range_order map_2 ro \<and> range_order (mapString lo ro map_1 map_2) do"

text \<open>The line that the loop prints for one element of \<^verbatim>\<open>keyVals\<close>.\<close>

definition entry_line :: "keyVal \<Rightarrow> string" where
  "entry_line kv =
     diff_line (key kv) (not_set_unless (value kv ! 0)) (not_set_unless (value kv ! 1))"

text \<open>Exchanging the two sides of an entry of a diff, as in the specification's \<open>swap\<close>.\<close>

fun swap_sides :: "string option list \<Rightarrow> string option list" where
  "swap_sides [a, b] = [b, a]"
| "swap_sides entry = entry"

subsection \<open>Projects, experiments and checkpoints\<close>

text \<open>
  Packages \<^verbatim>\<open>project\<close> and \<^verbatim>\<open>param\<close> are used by the file and are not part of it.
  Their structs are records with the fields that the file reads; \<open>'v\<close> is the type of
  the \<^verbatim>\<open>*param.Value\<close> that the maps hold. Their functions are the fields of the record
  \<open>Project\<close>: the four lookups of \<^verbatim>\<open>*project.Project\<close>, the short identifiers
  (\<^verbatim>\<open>exp.ShortID()\<close>, \<^verbatim>\<open>com.ShortID()\<close>, \<^verbatim>\<open>com.ShortExperimentID()\<close>) and
  \<^verbatim>\<open>v.String()\<close>. A lookup returns a pointer and an error: where the file tests the
  pointer against \<^verbatim>\<open>nil\<close> the result is an option; where it does not, a lookup that
  returns no error is taken to return a value, as the specification has it (section 6).
\<close>

record 'v Experiment =
  ID :: string
  Params :: "'v gomap"

record 'v Checkpoint =
  ID :: string
  ExperimentID :: string
  Metrics :: "'v gomap"

record 'v CheckpointOrExperiment =
  Checkpoint :: "'v Checkpoint option"
  Experiment :: "'v Experiment option"

record 'v Project =
  CheckpointOrExperimentFromPrefix :: "string \<Rightarrow> error + 'v CheckpointOrExperiment"
  ExperimentBestCheckpoint :: "string \<Rightarrow> error + 'v Checkpoint option"
  ExperimentLatestCheckpoint :: "string \<Rightarrow> error + 'v Checkpoint option"
  ExperimentByID :: "string \<Rightarrow> error + 'v Experiment"
  Experiment_ShortID :: "'v Experiment \<Rightarrow> string"
  Checkpoint_ShortID :: "'v Checkpoint \<Rightarrow> string"
  Checkpoint_ShortExperimentID :: "'v Checkpoint \<Rightarrow> string"
  Value_String :: "'v \<Rightarrow> string"

subsection \<open>loadCheckpoint\<close>

text \<open>
  \<^verbatim>\<open>
  func loadCheckpoint(proj *project.Project, prefix string) (*project.Checkpoint, error) {
      obj, err := proj.CheckpointOrExperimentFromPrefix(prefix)
      if err != nil {
          return nil, err
      }
      if obj.Checkpoint != nil {
          return obj.Checkpoint, nil
      }
      exp := obj.Experiment

      // First, try getting best checkpoint
      checkpoint, err := proj.ExperimentBestCheckpoint(exp.ID)
      if err != nil {
          return nil, err
      }
      if checkpoint != nil {
          console.Info("%q matches an experiment, picking the best checkpoint", prefix)
          return checkpoint, nil
      }

      // If there is no best checkpoint and no error, then no primary metric has been set,
      // so fall back to picking latest checkpoint
      console.Info("%q is an experiment, picking the latest checkpoint", prefix)
      checkpoint, err = proj.ExperimentLatestCheckpoint(exp.ID)
      if err != nil {
          return nil, err
      }
      if checkpoint == nil {
          return nil, fmt.Errorf("Could not pick best checkpoint for experiment %q: it does not have any checkpoints.", exp.ShortID())
      }
      return checkpoint, nil
  }
  \<close>
  The function takes the console and returns it with the notices it printed. Reading
  \<^verbatim>\<open>exp.ID\<close> panics when \<^verbatim>\<open>obj.Experiment\<close> is \<^verbatim>\<open>nil\<close>.
\<close>

definition loadCheckpoint ::
  "'v Project \<Rightarrow> string \<Rightarrow> console \<Rightarrow> (error + 'v Checkpoint) \<times> console" where
  "loadCheckpoint proj prefix con =
     (case CheckpointOrExperimentFromPrefix proj prefix of
        Inl err \<Rightarrow> (Inl err, con)
      | Inr obj \<Rightarrow>
          (case Checkpoint obj of
             Some c \<Rightarrow> (Inr c, con)
           | None \<Rightarrow>
               (case Experiment obj of
                  None \<Rightarrow> (Inl (Panic ''nil pointer dereference''), con)
                | Some exp \<Rightarrow>
                    (case ExperimentBestCheckpoint proj (Experiment.ID exp) of
                       Inl err \<Rightarrow> (Inl err, con)
                     | Inr (Some checkpoint) \<Rightarrow>
                         (Inr checkpoint,
                          console_Info con
                            ''%q matches an experiment, picking the best checkpoint'' [prefix])
                     | Inr None \<Rightarrow>
                         (let con' = console_Info con
                                ''%q is an experiment, picking the latest checkpoint'' [prefix]
                          in case ExperimentLatestCheckpoint proj (Experiment.ID exp) of
                               Inl err \<Rightarrow> (Inl err, con')
                             | Inr None \<Rightarrow>
                                 (Inl (Errorf
                                    ''Could not pick best checkpoint for experiment %q: it does not have any checkpoints.''
                                    [Experiment_ShortID proj exp]), con')
                             | Inr (Some checkpoint) \<Rightarrow> (Inr checkpoint, con'))))))"

subsection \<open>paramMapToStringMap and printDiff\<close>

text \<open>
  \<^verbatim>\<open>
  func paramMapToStringMap(params map[string]*param.Value) map[string]string {
      result := make(map[string]string)
      for k, v := range params {
          result[k] = v.String()
      }
      return result
  }
  \<close>
\<close>

fun paramMapToStringMap_loop ::
  "('v \<Rightarrow> string) \<Rightarrow> (string \<times> 'v) list \<Rightarrow> string gomap \<Rightarrow> string gomap" where
  "paramMapToStringMap_loop String [] result = result"
| "paramMapToStringMap_loop String ((k, v) # kvs) result =
     paramMapToStringMap_loop String kvs (result(k \<mapsto> String v))"

definition paramMapToStringMap ::
  "('v \<Rightarrow> string) \<Rightarrow> string list \<Rightarrow> 'v gomap \<Rightarrow> string gomap" where
  "paramMapToStringMap String po params =
     paramMapToStringMap_loop String (range_entries po params) Map.empty"

text \<open>
  \<^verbatim>\<open>
  func printDiff(out io.Writer, au aurora.Aurora, proj *project.Project, prefix1 string, prefix2 string) error {
      com1, err := loadCheckpoint(proj, prefix1)
      if err != nil {
          return err
      }
      com2, err := loadCheckpoint(proj, prefix2)
      if err != nil {
          return err
      }
      exp1, err := proj.ExperimentByID(com1.ExperimentID)
      if err != nil {
          return err
      }
      exp2, err := proj.ExperimentByID(com2.ExperimentID)
      if err != nil {
          return err
      }

      // min width for 3 columns in 78 char terminal
      w := tabwriter.NewWriter(out, 78/3, 8, 2, ' ', 0)

      fmt.Fprintf(w, "Checkpoint:\t%s\t%s\n", com1.ShortID(), com2.ShortID())
      fmt.Fprintf(w, "Experiment:\t%s\t%s\n", com1.ShortExperimentID(), com2.ShortExperimentID())

      br(w)
      heading(w, au, "Params")
      printMapDiff(w, au, paramMapToStringMap(exp1.Params), paramMapToStringMap(exp2.Params))
      br(w)

      heading(w, au, "Metrics")
      // TODO(bfirsh): put primary metric first
      printMapDiff(w, au, paramMapToStringMap(com1.Metrics), paramMapToStringMap(com2.Metrics))
      br(w)

      return w.Flush()
  }
  \<close>
  The sink \<^verbatim>\<open>out\<close> is a value of a type \<open>'o\<close>. The table writer is the only writer to
  it: \<open>Flush out w\<close> is the sink after the text buffered in \<open>w\<close> has been laid out in
  columns and written to \<open>out\<close>, with the error of \<^verbatim>\<open>w.Flush()\<close>. The orders of the
  range loops of one call are the fields of \<open>loop_orders\<close>.
\<close>

record loop_orders =
  params1_order :: "string list"
  params2_order :: "string list"
  params_left_order :: "string list"
  params_right_order :: "string list"
  params_diff_order :: "string list"
  metrics1_order :: "string list"
  metrics2_order :: "string list"
  metrics_left_order :: "string list"
  metrics_right_order :: "string list"
  metrics_diff_order :: "string list"

text \<open>
  Lines 82 to 98: the report, once both checkpoints and both experiments are there. A panic
  in \<open>printMapDiff\<close> would end the call before the flush; \<open>printMapDiff_lines\<close> below
  shows that there is none.
\<close>

definition printDiff_report ::
  "('o \<Rightarrow> tabwriter \<Rightarrow> 'o \<times> error option) \<Rightarrow> loop_orders \<Rightarrow> 'o \<Rightarrow> aurora \<Rightarrow> 'v Project \<Rightarrow>
   'v Checkpoint \<Rightarrow> 'v Checkpoint \<Rightarrow> 'v Experiment \<Rightarrow> 'v Experiment \<Rightarrow> 'o \<times> error option" where
  "printDiff_report Flush os out au proj com1 com2 exp1 exp2 =
     (let w = [];
          w = Fprintf w (''Checkpoint:'' @ [TAB] @ Checkpoint_ShortID proj com1 @ [TAB]
                           @ Checkpoint_ShortID proj com2 @ [NL]);
          w = Fprintf w (''Experiment:'' @ [TAB] @ Checkpoint_ShortExperimentID proj com1 @ [TAB]
                           @ Checkpoint_ShortExperimentID proj com2 @ [NL]);
          w = br w;
          w = heading w au ''Params''
      in case printMapDiff w au
                (params_left_order os) (params_right_order os) (params_diff_order os)
                (paramMapToStringMap (Value_String proj) (params1_order os) (Params exp1))
                (paramMapToStringMap (Value_String proj) (params2_order os) (Params exp2)) of
           Inl e \<Rightarrow> (out, Some e)
         | Inr w \<Rightarrow>
             (let w = br w;
                  w = heading w au ''Metrics''
              in case printMapDiff w au
                        (metrics_left_order os) (metrics_right_order os) (metrics_diff_order os)
                        (paramMapToStringMap (Value_String proj) (metrics1_order os) (Metrics com1))
                        (paramMapToStringMap (Value_String proj) (metrics2_order os) (Metrics com2)) of
                   Inl e \<Rightarrow> (out, Some e)
                 | Inr w \<Rightarrow> Flush out (br w)))"

text \<open>
  The result is the sink, the console and the returned error (\<open>None\<close> is \<^verbatim>\<open>nil\<close>).
\<close>

definition printDiff ::
  "('o \<Rightarrow> tabwriter \<Rightarrow> 'o \<times> error option) \<Rightarrow> loop_orders \<Rightarrow> 'o \<Rightarrow> aurora \<Rightarrow> 'v Project \<Rightarrow>
   string \<Rightarrow> string \<Rightarrow> console \<Rightarrow> 'o \<times> console \<times> error option" where
  "printDiff Flush os out au proj prefix1 prefix2 con =
     (case loadCheckpoint proj prefix1 con of
        (Inl err, con1) \<Rightarrow> (out, con1, Some err)
      | (Inr com1, con1) \<Rightarrow>
          (case loadCheckpoint proj prefix2 con1 of
             (Inl err, con2) \<Rightarrow> (out, con2, Some err)
           | (Inr com2, con2) \<Rightarrow>
               (case ExperimentByID proj (ExperimentID com1) of
                  Inl err \<Rightarrow> (out, con2, Some err)
                | Inr exp1 \<Rightarrow>
                    (case ExperimentByID proj (ExperimentID com2) of
                       Inl err \<Rightarrow> (out, con2, Some err)
                     | Inr exp2 \<Rightarrow>
                         (case printDiff_report Flush os out au proj com1 com2 exp1 exp2 of
                            (out', err) \<Rightarrow> (out', con2, err))))))"

subsection \<open>Sample data\<close>

text \<open>
  The two maps of the example in the comment above \<^verbatim>\<open>mapString\<close>, an aurora that adds
  no colour, a sink that keeps the text it is given, and a small project: the prefix
  \<open>c0f\<close> is a checkpoint, \<open>e12\<close> is an experiment, every other prefix is unknown.
  \<open>example_latest\<close> is a second checkpoint of that experiment, \<open>example_dangling\<close>
  one whose experiment the project does not have.
\<close>

definition example_left :: "string gomap" where
  "example_left = [''layers'' \<mapsto> ''2'', ''foo'' \<mapsto> ''bar'']"

definition example_right :: "string gomap" where
  "example_right = [''layers'' \<mapsto> ''4'']"

definition plain_aurora :: aurora where
  "plain_aurora = \<lparr>Bold = (\<lambda>s. s), Faint = (\<lambda>s. s)\<rparr>"

definition example_Flush :: "string \<Rightarrow> tabwriter \<Rightarrow> string \<times> error option" where
  "example_Flush out w = (out @ concat w, None)"

definition example_checkpoint :: "string Checkpoint" where
  "example_checkpoint =
     \<lparr>Checkpoint.ID = ''c0ffee0123'', ExperimentID = ''e123456789'',
      Metrics = [''acc'' \<mapsto> ''0.9'']\<rparr>"

definition example_experiment :: "string Experiment" where
  "example_experiment = \<lparr>Experiment.ID = ''e123456789'', Params = [''lr'' \<mapsto> ''0.1'']\<rparr>"

definition example_project ::
  "(error + string Checkpoint option) \<Rightarrow> (error + string Checkpoint option) \<Rightarrow>
   (string \<Rightarrow> error + string Experiment) \<Rightarrow> string Project" where
  "example_project best latest owner =
     \<lparr>CheckpointOrExperimentFromPrefix = (\<lambda>prefix.
        if prefix = ''c0f''
        then Inr \<lparr>Checkpoint = Some example_checkpoint, Experiment = None\<rparr>
        else if prefix = ''e12''
        then Inr \<lparr>Checkpoint = None, Experiment = Some example_experiment\<rparr>
        else Inl (Errorf ''no checkpoint or experiment with prefix %q'' [prefix])),
      ExperimentBestCheckpoint = (\<lambda>_. best),
      ExperimentLatestCheckpoint = (\<lambda>_. latest),
      ExperimentByID = owner,
      Experiment_ShortID = (\<lambda>e. take 7 (Experiment.ID e)),
      Checkpoint_ShortID = (\<lambda>c. take 7 (Checkpoint.ID c)),
      Checkpoint_ShortExperimentID = (\<lambda>c. take 7 (ExperimentID c)),
      Value_String = (\<lambda>v. v)\<rparr>"

definition example_owner :: "string \<Rightarrow> error + string Experiment" where
  "example_owner experimentID =
     (if experimentID = ''e123456789'' then Inr example_experiment
      else Inl (Errorf ''no experiment %q'' [experimentID]))"

definition example_latest :: "string Checkpoint" where
  "example_latest =
     \<lparr>Checkpoint.ID = ''1a7e570000'', ExperimentID = ''e123456789'',
      Metrics = [''acc'' \<mapsto> ''0.95'']\<rparr>"

definition example_dangling :: "string Checkpoint" where
  "example_dangling =
     \<lparr>Checkpoint.ID = ''dead000000'', ExperimentID = ''0000000000'', Metrics = Map.empty\<rparr>"

definition example_orders :: loop_orders where
  "example_orders =
     \<lparr>params1_order = [''lr''], params2_order = [''lr''],
      params_left_order = [''lr''], params_right_order = [''lr''], params_diff_order = [],
      metrics1_order = [''acc''], metrics2_order = [''acc''],
      metrics_left_order = [''acc''], metrics_right_order = [''acc''],
      metrics_diff_order = [''acc'']\<rparr>"

subsection \<open>Properties of mapString\<close>

lemma range_entries_iff:
  "(k, v) \<in> set (range_entries ks m) \<longleftrightarrow> k \<in> set ks \<and> m k = Some v"
  by (induction ks) (auto simp: range_entries_def split: option.splits)

lemma mapString_left_lookup:
  assumes "\<forall>(k, v) \<in> set kvs. left k = Some v"
  shows "mapString_left right kvs result k =
           (if k \<in> fst ` set kvs \<and> diff_entry left right k \<noteq> None
            then diff_entry left right k else result k)"
  using assms
proof (induction kvs arbitrary: result)
  case Nil
  then show ?case by simp
next
  case (Cons kv kvs)
  obtain k' v' where kv: "kv = (k', v')" by (cases kv)
  from Cons.prems kv have l: "left k' = Some v'" by simp
  from Cons.prems have rest: "\<forall>(k, v) \<in> set kvs. left k = Some v" by simp
  show ?case
    using l by (auto simp: kv Cons.IH [OF rest] diff_entry_def split: option.splits)
qed

lemma mapString_right_lookup:
  assumes "\<forall>(k, v) \<in> set kvs. right k = Some v"
  shows "mapString_right left kvs result k =
           (if k \<in> fst ` set kvs \<and> left k = None then diff_entry left right k else result k)"
  using assms
proof (induction kvs arbitrary: result)
  case Nil
  then show ?case by simp
next
  case (Cons kv kvs)
  obtain k' v' where kv: "kv = (k', v')" by (cases kv)
  from Cons.prems kv have r: "right k' = Some v'" by simp
  from Cons.prems have rest: "\<forall>(k, v) \<in> set kvs. right k = Some v" by simp
  show ?case
    using r by (auto simp: kv Cons.IH [OF rest] diff_entry_def split: option.splits)
qed

lemma map_fst_range_entries:
  "map fst (range_entries ks m) = filter (\<lambda>k. m k \<noteq> None) ks"
  by (induction ks) (auto simp: range_entries_def split: option.splits)

lemma fst_range_entries: "fst ` set (range_entries ks m) = set ks \<inter> dom m"
proof -
  have "fst ` set (range_entries ks m) = set (map fst (range_entries ks m))"
    by simp
  also have "\<dots> = set ks \<inter> dom m"
    unfolding map_fst_range_entries by (auto simp: dom_def)
  finally show ?thesis .
qed

lemma mapString_lookup:
  "mapString lo ro left right k =
     (if k \<in> set ro \<and> left k = None \<and> right k \<noteq> None then diff_entry left right k
      else if k \<in> set lo \<and> left k \<noteq> None then diff_entry left right k
      else None)"
proof -
  have l: "\<forall>(k, v) \<in> set (range_entries lo left). left k = Some v"
    by (auto simp: range_entries_iff)
  have r: "\<forall>(k, v) \<in> set (range_entries ro right). right k = Some v"
    by (auto simp: range_entries_iff)
  show ?thesis
    unfolding mapString_def
    by (auto simp: mapString_right_lookup [OF r] mapString_left_lookup [OF l]
        fst_range_entries dom_def)
qed

lemma mapString_diff_entry:
  assumes "range_order left lo" and "range_order right ro"
  shows "mapString lo ro left right = diff_entry left right"
proof
  fix k
  from assms have "set lo = dom left" "set ro = dom right"
    by (simp_all add: range_order_def)
  then show "mapString lo ro left right k = diff_entry left right k"
    by (auto simp: mapString_lookup diff_entry_def dom_def split: option.splits)
qed

subsection \<open>Properties of printMapDiff\<close>

lemma mapString_entry_shape:
  assumes "mapString lo ro left right k = Some vs"
  shows "\<exists>a b. vs = [a, b] \<and> (a \<noteq> None \<or> b \<noteq> None)"
  using assms
  by (auto simp: mapString_lookup diff_entry_def split: option.splits if_splits)

lemma printMapDiff_rows_lines:
  assumes "\<forall>kv \<in> set kvs. length (value kv) = 2"
  shows "printMapDiff_rows w kvs = Inr (w @ map entry_line kvs)"
  using assms
  by (induction kvs arbitrary: w) (simp_all add: slice_index_def Fprintf_def entry_line_def)

lemma set_keyVals:
  "set (keyVals do diffMap) = {\<lparr>key = k, value = v\<rparr> | k v. k \<in> set do \<and> diffMap k = Some v}"
  by (auto simp: keyVals_def range_entries_iff)

lemma map_key_range_entries:
  "map key (map (\<lambda>(k, v). \<lparr>key = k, value = v\<rparr>) (range_entries do diffMap))
     = filter (\<lambda>k. diffMap k \<noteq> None) do"
  by (induction do) (auto simp: range_entries_def split: option.splits)

lemma distinct_keys_keyVals:
  assumes "distinct do"
  shows "distinct (map key (keyVals do diffMap))"
proof -
  define xs where "xs = map (\<lambda>(k, v). \<lparr>key = k, value = v\<rparr>) (range_entries do diffMap)"
  have "map key xs = filter (\<lambda>k. diffMap k \<noteq> None) do"
    unfolding xs_def by (rule map_key_range_entries)
  with assms have "distinct (map key xs)"
    by simp
  then have "distinct xs \<and> inj_on key (set xs)"
    by (simp add: distinct_map)
  then have "distinct (map key (sort_key key xs))"
    by (simp add: distinct_map)
  then show ?thesis
    by (simp add: keyVals_def xs_def)
qed

lemma sorted_keys_keyVals: "sorted (map key (keyVals do diffMap))"
  by (simp add: keyVals_def)

lemma keyVals_order_irrelevant:
  assumes "range_order diffMap do" and "range_order diffMap do'"
  shows "keyVals do diffMap = keyVals do' diffMap"
proof (rule map_sorted_distinct_set_unique [where f = key])
  show "inj_on key (set (keyVals do diffMap) \<union> set (keyVals do' diffMap))"
    by (auto simp: inj_on_def set_keyVals)
  show "set (keyVals do diffMap) = set (keyVals do' diffMap)"
    using assms by (auto simp: set_keyVals range_order_def)
qed (use assms in \<open>simp_all add: sorted_keys_keyVals distinct_keys_keyVals range_order_def\<close>)

lemma set_keys_keyVals: "key ` set (keyVals do diffMap) = set do \<inter> dom diffMap"
proof -
  have "key ` set (keyVals do diffMap)
          = set (map key (map (\<lambda>(k, v). \<lparr>key = k, value = v\<rparr>) (range_entries do diffMap)))"
    unfolding keyVals_def by (simp add: image_image)
  also have "\<dots> = set do \<inter> dom diffMap"
    unfolding map_key_range_entries by (auto simp: dom_def)
  finally show ?thesis .
qed

lemma keyVals_Nil_iff:
  assumes "range_order diffMap do"
  shows "keyVals do diffMap = [] \<longleftrightarrow> diffMap = Map.empty"
proof -
  have "keyVals do diffMap = [] \<longleftrightarrow> key ` set (keyVals do diffMap) = {}"
    by simp
  also have "\<dots> \<longleftrightarrow> dom diffMap = {}"
    using assms unfolding set_keys_keyVals range_order_def by simp
  finally show ?thesis by simp
qed

lemma keyVals_shape:
  assumes "kv \<in> set (keyVals do (mapString lo ro left right))"
  shows "\<exists>a b. value kv = [a, b] \<and> (a \<noteq> None \<or> b \<noteq> None)"
  using assms mapString_entry_shape by (fastforce simp: set_keyVals)

lemma printMapDiff_lines:
  "printMapDiff w au lo ro do map_1 map_2 =
     Inr (w @ (if keyVals do (mapString lo ro map_1 map_2) = [] then [no_difference_line au]
               else map entry_line (keyVals do (mapString lo ro map_1 map_2))))"
proof -
  have "\<forall>kv \<in> set (keyVals do (mapString lo ro map_1 map_2)). length (value kv) = 2"
    using keyVals_shape by fastforce
  then show ?thesis
    by (simp add: printMapDiff_def Let_def printMapDiff_rows_lines Fprintf_def)
qed

lemma keyVals_value:
  assumes "kv \<in> set (keyVals do (mapString lo ro left right))"
  shows "value kv = [left (key kv), right (key kv)]
       \<and> (left (key kv) \<noteq> None \<or> right (key kv) \<noteq> None)"
proof -
  from assms have "mapString lo ro left right (key kv) = Some (value kv)"
    by (auto simp: set_keyVals)
  then have "diff_entry left right (key kv) = Some (value kv)"
    by (simp add: mapString_lookup split: if_splits)
  then show ?thesis
    by (auto simp: diff_entry_def split: option.splits if_splits)
qed

lemma entry_line_columns:
  assumes "kv \<in> set (keyVals do (mapString lo ro left right))"
  shows "entry_line kv =
           key kv @ '':'' @ [TAB]
             @ (case left (key kv) of None \<Rightarrow> ''(not set)'' | Some s \<Rightarrow> s) @ [TAB]
             @ (case right (key kv) of None \<Rightarrow> ''(not set)'' | Some s \<Rightarrow> s) @ [NL]"
  using keyVals_value [OF assms]
  by (simp add: entry_line_def diff_line_def not_set_unless_def)

lemma keyVals_strict_sorted:
  assumes "range_order diffMap do"
  shows "sorted_wrt (<) (map key (keyVals do diffMap))"
  using assms
  by (simp add: strict_sorted_iff sorted_keys_keyVals distinct_keys_keyVals range_order_def)

lemma length_keyVals:
  assumes "range_order diffMap do"
  shows "length (keyVals do diffMap) = card (dom diffMap)"
proof -
  have "length (keyVals do diffMap) = length (map key (keyVals do diffMap))"
    by simp
  also have "\<dots> = card (set (map key (keyVals do diffMap)))"
    using assms by (simp only: distinct_card distinct_keys_keyVals range_order_def)
  also have "\<dots> = card (dom diffMap)"
    using assms by (simp add: set_keys_keyVals range_order_def)
  finally show ?thesis .
qed

lemma colon_in_entry_line: "CHR '':'' \<in> set (entry_line kv)"
  by (simp add: entry_line_def diff_line_def)

lemma no_difference_line_not_entry:
  assumes "CHR '':'' \<notin> set (Faint au ''(no difference)'')"
  shows "no_difference_line au \<noteq> entry_line kv"
proof
  assume "no_difference_line au = entry_line kv"
  then have "CHR '':'' \<in> set (no_difference_line au)"
    by (simp add: colon_in_entry_line)
  with assms show False
    by (simp add: no_difference_line_def)
qed

subsection \<open>The sample data, evaluated\<close>

lemma example_left_order: "range_order example_left [''foo'', ''layers'']"
  by (auto simp: range_order_def example_left_def)

lemma example_right_order: "range_order example_right [''layers'']"
  by (auto simp: range_order_def example_right_def)

lemma mapString_example:
  "mapString [''foo'', ''layers''] [''layers''] example_left example_right =
     [''foo'' \<mapsto> [Some ''bar'', None], ''layers'' \<mapsto> [Some ''2'', Some ''4'']]"
  by (simp add: mapString_def range_entries_def example_left_def example_right_def fun_eq_iff)

lemma example_range_orders:
  "range_orders [''foo'', ''layers''] [''layers''] [''layers'', ''foo''] example_left example_right"
  unfolding range_orders_def mapString_example
  by (auto simp: range_order_def example_left_def example_right_def)

lemma mapString_example':
  "mapString [''layers'', ''foo''] [''layers''] example_left example_right =
     [''foo'' \<mapsto> [Some ''bar'', None], ''layers'' \<mapsto> [Some ''2'', Some ''4'']]"
  by (simp add: mapString_def range_entries_def example_left_def example_right_def fun_eq_iff)

lemma example_range_orders':
  "range_orders [''layers'', ''foo''] [''layers''] [''foo'', ''layers''] example_left example_right"
  unfolding range_orders_def mapString_example'
  by (auto simp: range_order_def example_left_def example_right_def)

lemma keyVals_example:
  "keyVals [''layers'', ''foo'']
     (mapString [''foo'', ''layers''] [''layers''] example_left example_right) =
     [\<lparr>key = ''foo'', value = [Some ''bar'', None]\<rparr>,
      \<lparr>key = ''layers'', value = [Some ''2'', Some ''4'']\<rparr>]"
  unfolding mapString_example by (simp add: keyVals_def range_entries_def)

text \<open>A run of \<open>printDiff\<close> on the sample project, from the prefixes to the text in the sink.\<close>

lemma printDiff_example:
  "printDiff example_Flush example_orders [] plain_aurora
     (example_project (Inr None) (Inr (Some example_latest)) example_owner) ''c0f'' ''e12'' [] =
   (''Checkpoint:'' @ [TAB] @ ''c0ffee0'' @ [TAB] @ ''1a7e570'' @ [NL]
    @ ''Experiment:'' @ [TAB] @ ''e123456'' @ [TAB] @ ''e123456'' @ [NL]
    @ [TAB, TAB, NL]
    @ ''Params'' @ [TAB, TAB, NL]
    @ ''(no difference)'' @ [TAB, TAB, NL]
    @ [TAB, TAB, NL]
    @ ''Metrics'' @ [TAB, TAB, NL]
    @ ''acc:'' @ [TAB] @ ''0.9'' @ [TAB] @ ''0.95'' @ [NL]
    @ [TAB, TAB, NL],
    [(''%q is an experiment, picking the latest checkpoint'', [''e12''])],
    None)"
  by (simp add: printDiff_def printDiff_report_def loadCheckpoint_def example_project_def
      example_owner_def example_checkpoint_def example_latest_def example_experiment_def
      example_orders_def example_Flush_def plain_aurora_def console_Info_def
      printMapDiff_def keyVals_def mapString_def range_entries_def paramMapToStringMap_def
      Fprintf_def br_def heading_def diff_line_def no_difference_line_def slice_index_def
      not_set_unless_def Let_def)

subsection \<open>The claims about the differ\<close>

text \<open>
  Claim C1. For all string-keyed string maps \<open>left\<close> and \<open>right\<close> and every key \<open>k\<close>:
  the diff holds for \<open>k\<close> the pair of the left and the right value exactly when \<open>k\<close> is in
  both maps with differing values; the pair of the left value and absent exactly when \<open>k\<close>
  is only in \<open>left\<close>; the pair of absent and the right value exactly when \<open>k\<close> is only in
  \<open>right\<close>; and it omits \<open>k\<close> (a key of one of the maps that is no key of the diff)
  exactly when \<open>k\<close> is in both maps with equal values. This holds for every order in which
  the two loops may visit the maps.
\<close>

theorem mapString_entries:
  assumes "range_order left lo" and "range_order right ro"
  shows "(mapString lo ro left right k = Some [Some a, Some b]
            \<longleftrightarrow> left k = Some a \<and> right k = Some b \<and> a \<noteq> b)
       \<and> (mapString lo ro left right k = Some [Some a, None]
            \<longleftrightarrow> left k = Some a \<and> right k = None)
       \<and> (mapString lo ro left right k = Some [None, Some b]
            \<longleftrightarrow> left k = None \<and> right k = Some b)
       \<and> (k \<in> dom left \<union> dom right \<and> mapString lo ro left right k = None
            \<longleftrightarrow> (\<exists>v. left k = Some v \<and> right k = Some v))"
  unfolding mapString_diff_entry [OF assms]
  by (auto simp: diff_entry_def split: option.splits)

theorem mapString_entries_witness:
  "range_order example_left [''foo'', ''layers''] \<and> range_order example_right [''layers'']
   \<and> mapString [''foo'', ''layers''] [''layers''] example_left example_right ''layers''
       = Some [Some ''2'', Some ''4'']
   \<and> mapString [''foo'', ''layers''] [''layers''] example_left example_right ''foo''
       = Some [Some ''bar'', None]"
  using example_left_order example_right_order
    mapString_entries [OF example_left_order example_right_order,
      where k = "''layers''" and a = "''2''" and b = "''4''"]
    mapString_entries [OF example_left_order example_right_order,
      where k = "''foo''" and a = "''bar''"]
  by (simp add: example_left_def example_right_def)

text \<open>
  Claim C6. For every string-keyed string map \<open>M\<close>, the diff of \<open>M\<close> with itself is the
  empty map, in whatever order the two loops visit \<open>M\<close>.
\<close>

theorem mapString_same_empty: "mapString lo ro M M = Map.empty"
proof
  fix k
  show "mapString lo ro M M k = None"
    by (auto simp: mapString_lookup diff_entry_def split: option.splits)
qed

text \<open>
  Claim C7. For all string-keyed string maps \<open>L\<close> and \<open>R\<close> and every key \<open>k\<close> (so also
  for every key of either map), the diff of \<open>L\<close> and \<open>R\<close> at \<open>k\<close> is the diff of \<open>R\<close> and
  \<open>L\<close> at \<open>k\<close> with its two sides exchanged: both are absent, or both are present and one
  is the other with left and right swapped.
\<close>

theorem mapString_swap:
  assumes "range_order L lo" and "range_order R ro"
    and "range_order R lo'" and "range_order L ro'"
  shows "mapString lo ro L R k = map_option swap_sides (mapString lo' ro' R L k)"
  unfolding mapString_diff_entry [OF assms(1,2)] mapString_diff_entry [OF assms(3,4)]
  by (auto simp: diff_entry_def split: option.splits)

theorem mapString_swap_witness:
  "range_order example_left [''foo'', ''layers''] \<and> range_order example_right [''layers'']
   \<and> mapString [''layers''] [''foo'', ''layers''] example_right example_left ''foo''
       = Some [None, Some ''bar'']
   \<and> mapString [''foo'', ''layers''] [''layers''] example_left example_right ''foo''
       = map_option swap_sides
           (mapString [''layers''] [''foo'', ''layers''] example_right example_left ''foo'')"
  using example_left_order example_right_order
    mapString_swap [OF example_left_order example_right_order
      example_right_order example_left_order, where k = "''foo''"]
  by (simp add: mapString_def range_entries_def example_left_def example_right_def)

text \<open>
  Claim C10, as the code has it. For every pair of input maps, every entry of the map
  returned by \<open>mapString\<close> is a slice of length exactly 2 with at least one element that
  is not \<^verbatim>\<open>nil\<close>. So for every element of \<^verbatim>\<open>keyVals\<close> the accesses \<^verbatim>\<open>kv.value[0]\<close>
  and \<^verbatim>\<open>kv.value[1]\<close> of \<open>printMapDiff\<close> are in bounds: they read the values that the
  left and the right map hold for the key, not both absent, and \<open>printMapDiff\<close> does not
  panic. Each row written is the key, a colon, and in the two columns the value of the
  left and of the right map for that key, with \<^verbatim>\<open>(not set)\<close> in the column of an absent
  value. So at most one column of a row holds \<^verbatim>\<open>(not set)\<close> for an absent value, and a
  row reads \<^verbatim>\<open>(not set)\<close> in both columns only when one of the maps holds the string
  \<^verbatim>\<open>(not set)\<close> itself as the value of that key.
\<close>

theorem printMapDiff_not_set:
  "(mapString lo ro left right k = Some entry
      \<longrightarrow> length entry = 2 \<and> (entry ! 0 \<noteq> None \<or> entry ! 1 \<noteq> None))
   \<and> (\<forall>kv \<in> set (keyVals do (mapString lo ro left right)).
        slice_index (value kv) 0 = Inr (left (key kv))
        \<and> slice_index (value kv) 1 = Inr (right (key kv))
        \<and> (left (key kv) \<noteq> None \<or> right (key kv) \<noteq> None))
   \<and> printMapDiff w au lo ro do left right =
       Inr (w @
         (if keyVals do (mapString lo ro left right) = []
          then [Faint au ''(no difference)'' @ [TAB, TAB, NL]]
          else map (\<lambda>kv. key kv @ '':'' @ [TAB]
                      @ (case left (key kv) of None \<Rightarrow> ''(not set)'' | Some s \<Rightarrow> s) @ [TAB]
                      @ (case right (key kv) of None \<Rightarrow> ''(not set)'' | Some s \<Rightarrow> s) @ [NL])
                 (keyVals do (mapString lo ro left right))))
   \<and> (\<forall>kv \<in> set (keyVals do (mapString lo ro left right)).
        (case left (key kv) of None \<Rightarrow> ''(not set)'' | Some s \<Rightarrow> s) = ''(not set)''
        \<and> (case right (key kv) of None \<Rightarrow> ''(not set)'' | Some s \<Rightarrow> s) = ''(not set)''
        \<longrightarrow> left (key kv) = Some ''(not set)'' \<or> right (key kv) = Some ''(not set)'')"
proof (intro conjI impI ballI)
  assume "mapString lo ro left right k = Some entry"
  from mapString_entry_shape [OF this]
  show "length entry = 2" and "entry ! 0 \<noteq> None \<or> entry ! 1 \<noteq> None"
    by auto
next
  fix kv
  assume kv: "kv \<in> set (keyVals do (mapString lo ro left right))"
  from keyVals_value [OF kv]
  show "slice_index (value kv) 0 = Inr (left (key kv))"
    and "slice_index (value kv) 1 = Inr (right (key kv))"
    and "left (key kv) \<noteq> None \<or> right (key kv) \<noteq> None"
    by (simp_all add: slice_index_def)
next
  have "map entry_line (keyVals do (mapString lo ro left right)) =
      map (\<lambda>kv. key kv @ '':'' @ [TAB]
                @ (case left (key kv) of None \<Rightarrow> ''(not set)'' | Some s \<Rightarrow> s) @ [TAB]
                @ (case right (key kv) of None \<Rightarrow> ''(not set)'' | Some s \<Rightarrow> s) @ [NL])
          (keyVals do (mapString lo ro left right))"
    by (rule map_cong [OF refl]) (rule entry_line_columns)
  then show "printMapDiff w au lo ro do left right =
       Inr (w @
         (if keyVals do (mapString lo ro left right) = []
          then [Faint au ''(no difference)'' @ [TAB, TAB, NL]]
          else map (\<lambda>kv. key kv @ '':'' @ [TAB]
                      @ (case left (key kv) of None \<Rightarrow> ''(not set)'' | Some s \<Rightarrow> s) @ [TAB]
                      @ (case right (key kv) of None \<Rightarrow> ''(not set)'' | Some s \<Rightarrow> s) @ [NL])
                 (keyVals do (mapString lo ro left right))))"
    by (simp add: printMapDiff_lines no_difference_line_def)
next
  fix kv
  assume kv: "kv \<in> set (keyVals do (mapString lo ro left right))"
    and both: "(case left (key kv) of None \<Rightarrow> ''(not set)'' | Some s \<Rightarrow> s) = ''(not set)''
        \<and> (case right (key kv) of None \<Rightarrow> ''(not set)'' | Some s \<Rightarrow> s) = ''(not set)''"
  from keyVals_value [OF kv] both
  show "left (key kv) = Some ''(not set)'' \<or> right (key kv) = Some ''(not set)''"
    by (auto split: option.splits)
qed

theorem printMapDiff_not_set_witness:
  "mapString [''foo'', ''layers''] [''layers''] example_left example_right ''foo''
     = Some [Some ''bar'', None]
   \<and> \<lparr>key = ''foo'', value = [Some ''bar'', None]\<rparr>
       \<in> set (keyVals [''layers'', ''foo'']
                (mapString [''foo'', ''layers''] [''layers''] example_left example_right))
   \<and> slice_index (value \<lparr>key = ''foo'', value = [Some ''bar'', None]\<rparr>) 0 = Inr (Some ''bar'')
   \<and> slice_index (value \<lparr>key = ''foo'', value = [Some ''bar'', None]\<rparr>) 1 = Inr None
   \<and> printMapDiff [] plain_aurora [''foo'', ''layers''] [''layers''] [''layers'', ''foo'']
         example_left example_right
       = Inr [''foo:'' @ [TAB] @ ''bar'' @ [TAB] @ ''(not set)'' @ [NL],
              ''layers:'' @ [TAB] @ ''2'' @ [TAB] @ ''4'' @ [NL]]"
proof -
  have entry: "mapString [''foo'', ''layers''] [''layers''] example_left example_right ''foo''
      = Some [Some ''bar'', None]"
    by (simp add: mapString_example)
  have kv: "\<lparr>key = ''foo'', value = [Some ''bar'', None]\<rparr>
      \<in> set (keyVals [''layers'', ''foo'']
               (mapString [''foo'', ''layers''] [''layers''] example_left example_right))"
    by (simp add: keyVals_example)
  have sides: "example_left ''foo'' = Some ''bar''" "example_right ''foo'' = None"
    "example_left ''layers'' = Some ''2''" "example_right ''layers'' = Some ''4''"
    by (simp_all add: example_left_def example_right_def)
  note C = printMapDiff_not_set [where lo = "[''foo'', ''layers'']" and ro = "[''layers'']"
      and left = example_left and right = example_right and k = "''foo''"
      and entry = "[Some ''bar'', None]" and do = "[''layers'', ''foo'']"
      and w = "[]" and au = plain_aurora]
  from C kv have "slice_index (value \<lparr>key = ''foo'', value = [Some ''bar'', None]\<rparr>) 0
        = Inr (example_left ''foo'')"
    and "slice_index (value \<lparr>key = ''foo'', value = [Some ''bar'', None]\<rparr>) 1
        = Inr (example_right ''foo'')"
    by fastforce+
  moreover from C have "printMapDiff [] plain_aurora [''foo'', ''layers''] [''layers'']
         [''layers'', ''foo''] example_left example_right
       = Inr [''foo:'' @ [TAB] @ ''bar'' @ [TAB] @ ''(not set)'' @ [NL],
              ''layers:'' @ [TAB] @ ''2'' @ [TAB] @ ''4'' @ [NL]]"
    by (simp add: keyVals_example sides)
  ultimately show ?thesis
    using entry kv sides by simp
qed

text \<open>
  The claim as it was stated, that no row shows \<^verbatim>\<open>(not set)\<close> in both columns, fails
  where a value is that very string: the code has no test that keeps the values apart
  from the placeholder. The left map holds \<^verbatim>\<open>(not set)\<close> for the key \<open>k\<close>, the right
  map has no \<open>k\<close>, and the one row written reads \<^verbatim>\<open>(not set)\<close> twice.
\<close>

theorem printMapDiff_not_set_both_counterexample:
  "range_orders [''k''] [] [''k''] [''k'' \<mapsto> ''(not set)''] Map.empty
   \<and> printMapDiff [] plain_aurora [''k''] [] [''k''] [''k'' \<mapsto> ''(not set)''] Map.empty
       = Inr [''k:'' @ [TAB] @ ''(not set)'' @ [TAB] @ ''(not set)'' @ [NL]]"
  by (simp add: range_orders_def range_order_def printMapDiff_def keyVals_def mapString_def
      range_entries_def slice_index_def not_set_unless_def diff_line_def Fprintf_def)

subsection \<open>The claims about printMapDiff\<close>

text \<open>
  Claim C8. For every pair of input maps, the rows printed by \<open>printMapDiff\<close> are in
  strictly ascending lexicographic order of their keys: the keys of \<^verbatim>\<open>keyVals\<close> ascend,
  and the rows written are the lines of \<^verbatim>\<open>keyVals\<close> in that order. So the output is a
  function of the contents of the two maps: two runs in which the runtime visits the maps
  in different orders write the same.
\<close>

theorem printMapDiff_sorted:
  assumes "range_orders lo ro do map_1 map_2" and "range_orders lo' ro' do' map_1 map_2"
  shows "sorted_wrt (<) (map key (keyVals do (mapString lo ro map_1 map_2)))
       \<and> (mapString lo ro map_1 map_2 \<noteq> Map.empty \<longrightarrow>
            printMapDiff w au lo ro do map_1 map_2
              = Inr (w @ map entry_line (keyVals do (mapString lo ro map_1 map_2))))
       \<and> printMapDiff w au lo ro do map_1 map_2 = printMapDiff w au lo' ro' do' map_1 map_2"
proof -
  from assms have o: "range_order (mapString lo ro map_1 map_2) do"
    and o': "range_order (mapString lo' ro' map_1 map_2) do'"
    by (simp_all add: range_orders_def)
  from assms have eq: "mapString lo ro map_1 map_2 = diff_entry map_1 map_2"
    and eq': "mapString lo' ro' map_1 map_2 = diff_entry map_1 map_2"
    by (simp_all add: range_orders_def mapString_diff_entry)
  have "keyVals do (mapString lo ro map_1 map_2) = keyVals do' (mapString lo' ro' map_1 map_2)"
    using o o' unfolding eq eq' by (rule keyVals_order_irrelevant)
  then have "printMapDiff w au lo ro do map_1 map_2 = printMapDiff w au lo' ro' do' map_1 map_2"
    by (simp add: printMapDiff_lines)
  moreover have "sorted_wrt (<) (map key (keyVals do (mapString lo ro map_1 map_2)))"
    using o by (rule keyVals_strict_sorted)
  moreover have "mapString lo ro map_1 map_2 \<noteq> Map.empty \<longrightarrow>
            printMapDiff w au lo ro do map_1 map_2
              = Inr (w @ map entry_line (keyVals do (mapString lo ro map_1 map_2)))"
    by (simp add: printMapDiff_lines keyVals_Nil_iff [OF o])
  ultimately show ?thesis by simp
qed

theorem printMapDiff_sorted_witness:
  "range_orders [''foo'', ''layers''] [''layers''] [''layers'', ''foo''] example_left example_right
   \<and> range_orders [''layers'', ''foo''] [''layers''] [''foo'', ''layers''] example_left example_right
   \<and> printMapDiff [] plain_aurora [''foo'', ''layers''] [''layers''] [''layers'', ''foo'']
         example_left example_right
       = Inr [diff_line ''foo'' ''bar'' ''(not set)'', diff_line ''layers'' ''2'' ''4'']
   \<and> printMapDiff [] plain_aurora [''layers'', ''foo''] [''layers''] [''foo'', ''layers'']
         example_left example_right
       = Inr [diff_line ''foo'' ''bar'' ''(not set)'', diff_line ''layers'' ''2'' ''4'']"
proof -
  have lines: "printMapDiff [] plain_aurora [''foo'', ''layers''] [''layers''] [''layers'', ''foo'']
         example_left example_right
       = Inr [diff_line ''foo'' ''bar'' ''(not set)'', diff_line ''layers'' ''2'' ''4'']"
    by (simp add: printMapDiff_lines keyVals_example entry_line_def not_set_unless_def)
  from printMapDiff_sorted [OF example_range_orders example_range_orders',
      where w = "[]" and au = plain_aurora] lines
  have "printMapDiff [] plain_aurora [''layers'', ''foo''] [''layers''] [''foo'', ''layers'']
         example_left example_right
       = Inr [diff_line ''foo'' ''bar'' ''(not set)'', diff_line ''layers'' ''2'' ''4'']"
    by simp
  with lines example_range_orders example_range_orders' show ?thesis
    by simp
qed

text \<open>
  Claim C9. For every pair of input maps whose diff is empty, \<open>printMapDiff\<close> writes
  exactly one row, the placeholder "(no difference)". When the diff is not empty it writes
  one row for each key of the diff, each the line of an entry, and (for an aurora whose
  faint text has no colon, as the escape sequences of a terminal have none) the
  placeholder row is not among them.
\<close>

theorem printMapDiff_placeholder:
  assumes "range_orders lo ro do map_1 map_2"
  shows "(mapString lo ro map_1 map_2 = Map.empty \<longrightarrow>
            printMapDiff w au lo ro do map_1 map_2 = Inr (w @ [no_difference_line au]))
       \<and> (mapString lo ro map_1 map_2 \<noteq> Map.empty \<longrightarrow>
            printMapDiff w au lo ro do map_1 map_2
              = Inr (w @ map entry_line (keyVals do (mapString lo ro map_1 map_2)))
            \<and> length (keyVals do (mapString lo ro map_1 map_2))
                = card (dom (mapString lo ro map_1 map_2))
            \<and> (CHR '':'' \<notin> set (Faint au ''(no difference)'') \<longrightarrow>
                 no_difference_line au
                   \<notin> set (map entry_line (keyVals do (mapString lo ro map_1 map_2)))))"
proof -
  define diffMap where "diffMap = mapString lo ro map_1 map_2"
  from assms have o: "range_order diffMap do"
    by (simp add: range_orders_def diffMap_def)
  have lines: "printMapDiff w au lo ro do map_1 map_2 =
      Inr (w @ (if keyVals do diffMap = [] then [no_difference_line au]
                else map entry_line (keyVals do diffMap)))"
    unfolding diffMap_def by (rule printMapDiff_lines)
  show ?thesis
  proof (cases "diffMap = Map.empty")
    case True
    with keyVals_Nil_iff [OF o] have "keyVals do diffMap = []"
      by simp
    with True lines show ?thesis
      by (simp add: diffMap_def)
  next
    case False
    with keyVals_Nil_iff [OF o] have "keyVals do diffMap \<noteq> []"
      by simp
    with False lines length_keyVals [OF o] no_difference_line_not_entry [of au]
    show ?thesis
      by (auto simp: diffMap_def)
  qed
qed

theorem printMapDiff_placeholder_witness:
  "range_orders [''layers''] [''layers''] [] example_right example_right
   \<and> printMapDiff [] plain_aurora [''layers''] [''layers''] [] example_right example_right
       = Inr [''(no difference)'' @ [TAB, TAB, NL]]
   \<and> range_orders [''foo'', ''layers''] [''layers''] [''layers'', ''foo''] example_left example_right
   \<and> mapString [''foo'', ''layers''] [''layers''] example_left example_right \<noteq> Map.empty
   \<and> CHR '':'' \<notin> set (Faint plain_aurora ''(no difference)'')
   \<and> no_difference_line plain_aurora \<notin> set (map entry_line
         (keyVals [''layers'', ''foo'']
            (mapString [''foo'', ''layers''] [''layers''] example_left example_right)))"
proof -
  have empty: "mapString [''layers''] [''layers''] example_right example_right = Map.empty"
    by (simp add: fun_eq_iff mapString_lookup diff_entry_def split: option.splits)
  have same: "range_orders [''layers''] [''layers''] [] example_right example_right"
    unfolding range_orders_def empty
    by (auto simp: range_order_def example_right_def)
  have nonempty: "mapString [''foo'', ''layers''] [''layers''] example_left example_right
      \<noteq> Map.empty"
  proof
    assume "mapString [''foo'', ''layers''] [''layers''] example_left example_right = Map.empty"
    then have "mapString [''foo'', ''layers''] [''layers''] example_left example_right ''foo''
        = None"
      by (simp only:)
    then show False
      by (simp add: mapString_example)
  qed
  have faint: "CHR '':'' \<notin> set (Faint plain_aurora ''(no difference)'')"
    by (simp add: plain_aurora_def)
  from same empty nonempty faint example_range_orders
    printMapDiff_placeholder [OF same, where w = "[]" and au = plain_aurora]
    printMapDiff_placeholder [OF example_range_orders, where w = "[]" and au = plain_aurora]
  show ?thesis
    by (simp add: no_difference_line_def plain_aurora_def)
qed

subsection \<open>The claims about loadCheckpoint and printDiff\<close>

text \<open>
  Claim C2. For every project and prefix, if the resolution of the prefix yields a
  checkpoint, \<open>loadCheckpoint\<close> returns exactly that checkpoint. The result is the same
  whatever the lookups of the best and of the latest checkpoint are, so neither is
  consulted, and the console is returned as it was: no notice is printed.
\<close>

theorem loadCheckpoint_checkpoint:
  assumes "CheckpointOrExperimentFromPrefix proj prefix = Inr obj"
    and "Checkpoint obj = Some c"
  shows "loadCheckpoint
           (proj\<lparr>ExperimentBestCheckpoint := best, ExperimentLatestCheckpoint := latest\<rparr>)
           prefix con = (Inr c, con)"
  using assms by (simp add: loadCheckpoint_def)

theorem loadCheckpoint_checkpoint_witness:
  "CheckpointOrExperimentFromPrefix (example_project (Inr None) (Inr None) example_owner) ''c0f''
     = Inr \<lparr>Checkpoint = Some example_checkpoint, Experiment = None\<rparr>
   \<and> loadCheckpoint
       (example_project (Inr None) (Inr None) example_owner
          \<lparr>ExperimentBestCheckpoint := (\<lambda>_. Inl (Panic ''best'')),
            ExperimentLatestCheckpoint := (\<lambda>_. Inl (Panic ''latest''))\<rparr>)
       ''c0f'' [] = (Inr example_checkpoint, [])"
proof -
  have resolved:
    "CheckpointOrExperimentFromPrefix (example_project (Inr None) (Inr None) example_owner) ''c0f''
       = Inr \<lparr>Checkpoint = Some example_checkpoint, Experiment = None\<rparr>"
    by (simp add: example_project_def)
  have checkpoint:
    "Checkpoint \<lparr>Checkpoint = Some example_checkpoint, Experiment = None\<rparr>
       = Some example_checkpoint"
    by simp
  from resolved loadCheckpoint_checkpoint [OF resolved checkpoint,
      where best = "\<lambda>_. Inl (Panic ''best'')" and latest = "\<lambda>_. Inl (Panic ''latest'')"
        and con = "[]"]
  show ?thesis by simp
qed

text \<open>
  Claim C3. For every project and prefix that resolves to an experiment: if the lookup of
  the best checkpoint of that experiment yields a checkpoint, \<open>loadCheckpoint\<close> returns
  it, after the notice of a best pick; if that lookup yields none, \<open>loadCheckpoint\<close>
  returns the latest checkpoint of the experiment, after the notice of a latest pick. The
  notices go to the console and do not change the returned value, which is the same for
  every console.
\<close>

theorem loadCheckpoint_experiment:
  assumes "CheckpointOrExperimentFromPrefix proj prefix = Inr obj"
    and "Checkpoint obj = None" and "Experiment obj = Some exp"
  shows "(ExperimentBestCheckpoint proj (Experiment.ID exp) = Inr (Some best) \<longrightarrow>
            loadCheckpoint proj prefix con =
              (Inr best, con @ [(''%q matches an experiment, picking the best checkpoint'', [prefix])]))
       \<and> (ExperimentBestCheckpoint proj (Experiment.ID exp) = Inr None \<longrightarrow>
          ExperimentLatestCheckpoint proj (Experiment.ID exp) = Inr (Some latest) \<longrightarrow>
            loadCheckpoint proj prefix con =
              (Inr latest, con @ [(''%q is an experiment, picking the latest checkpoint'', [prefix])]))
       \<and> fst (loadCheckpoint proj prefix con) = fst (loadCheckpoint proj prefix con')"
  using assms
  by (simp add: loadCheckpoint_def console_Info_def Let_def split: sum.splits option.splits)

theorem loadCheckpoint_experiment_witness:
  "loadCheckpoint (example_project (Inr (Some example_checkpoint)) (Inr None) example_owner)
     ''e12'' [] =
     (Inr example_checkpoint,
      [(''%q matches an experiment, picking the best checkpoint'', [''e12''])])
   \<and> loadCheckpoint (example_project (Inr None) (Inr (Some example_checkpoint)) example_owner)
     ''e12'' [] =
     (Inr example_checkpoint,
      [(''%q is an experiment, picking the latest checkpoint'', [''e12''])])"
proof -
  have resolved: "CheckpointOrExperimentFromPrefix (example_project best latest example_owner) ''e12''
       = Inr \<lparr>Checkpoint = None, Experiment = Some example_experiment\<rparr>" for best latest
    by (simp add: example_project_def)
  have no_checkpoint:
    "Checkpoint \<lparr>Checkpoint = None, Experiment = Some example_experiment\<rparr> = None"
    by simp
  have is_experiment:
    "Experiment \<lparr>Checkpoint = None, Experiment = Some example_experiment\<rparr>
       = Some example_experiment"
    by simp
  from loadCheckpoint_experiment [OF resolved no_checkpoint is_experiment,
      where best = example_checkpoint and con = "[]"]
    loadCheckpoint_experiment [OF resolved no_checkpoint is_experiment,
      where latest = example_checkpoint and con = "[]"]
  show ?thesis
    by (simp add: example_project_def)
qed

text \<open>
  Claim C4. For every project and prefix that resolves to an experiment with no
  checkpoints (the lookups of the best and of the latest checkpoint both yield none),
  \<open>loadCheckpoint\<close> returns no checkpoint but an error, and the one argument of the
  message of that error is the short identifier of that experiment.
\<close>

theorem loadCheckpoint_no_checkpoints:
  assumes "CheckpointOrExperimentFromPrefix proj prefix = Inr obj"
    and "Checkpoint obj = None" and "Experiment obj = Some exp"
    and "ExperimentBestCheckpoint proj (Experiment.ID exp) = Inr None"
    and "ExperimentLatestCheckpoint proj (Experiment.ID exp) = Inr None"
  shows "fst (loadCheckpoint proj prefix con) =
           Inl (Errorf ''Could not pick best checkpoint for experiment %q: it does not have any checkpoints.''
                  [Experiment_ShortID proj exp])"
  using assms by (simp add: loadCheckpoint_def Let_def)

theorem loadCheckpoint_no_checkpoints_witness:
  "CheckpointOrExperimentFromPrefix (example_project (Inr None) (Inr None) example_owner) ''e12''
     = Inr \<lparr>Checkpoint = None, Experiment = Some example_experiment\<rparr>
   \<and> fst (loadCheckpoint (example_project (Inr None) (Inr None) example_owner) ''e12'' []) =
     Inl (Errorf
       ''Could not pick best checkpoint for experiment %q: it does not have any checkpoints.''
       [''e123456''])"
proof -
  have resolved:
    "CheckpointOrExperimentFromPrefix (example_project (Inr None) (Inr None) example_owner) ''e12''
       = Inr \<lparr>Checkpoint = None, Experiment = Some example_experiment\<rparr>"
    by (simp add: example_project_def)
  have no_checkpoint:
    "Checkpoint \<lparr>Checkpoint = None, Experiment = Some example_experiment\<rparr> = None"
    by simp
  have is_experiment:
    "Experiment \<lparr>Checkpoint = None, Experiment = Some example_experiment\<rparr>
       = Some example_experiment"
    by simp
  have best: "ExperimentBestCheckpoint (example_project (Inr None) (Inr None) example_owner)
      (Experiment.ID example_experiment) = Inr None"
    by (simp add: example_project_def)
  have latest: "ExperimentLatestCheckpoint (example_project (Inr None) (Inr None) example_owner)
      (Experiment.ID example_experiment) = Inr None"
    by (simp add: example_project_def)
  from resolved
    loadCheckpoint_no_checkpoints [OF resolved no_checkpoint is_experiment best latest,
      where con = "[]"]
  show ?thesis
    by (simp add: example_project_def example_experiment_def)
qed

text \<open>
  Claim C5. For every project and pair of prefixes, if the resolution of the first prefix
  fails, or that of the second, or the fetch of the experiment that owns the first
  resolved checkpoint, or the fetch of the one that owns the second, then \<open>printDiff\<close>
  returns that error and the output sink is as it was before the call: nothing has been
  written to it, no heading and no row.
\<close>

theorem printDiff_error_no_output:
  "(loadCheckpoint proj prefix1 con = (Inl e, con1) \<longrightarrow>
      printDiff Flush os out au proj prefix1 prefix2 con = (out, con1, Some e))
   \<and> (loadCheckpoint proj prefix1 con = (Inr com1, con1) \<longrightarrow>
      loadCheckpoint proj prefix2 con1 = (Inl e, con2) \<longrightarrow>
      printDiff Flush os out au proj prefix1 prefix2 con = (out, con2, Some e))
   \<and> (loadCheckpoint proj prefix1 con = (Inr com1, con1) \<longrightarrow>
      loadCheckpoint proj prefix2 con1 = (Inr com2, con2) \<longrightarrow>
      ExperimentByID proj (ExperimentID com1) = Inl e \<longrightarrow>
      printDiff Flush os out au proj prefix1 prefix2 con = (out, con2, Some e))
   \<and> (loadCheckpoint proj prefix1 con = (Inr com1, con1) \<longrightarrow>
      loadCheckpoint proj prefix2 con1 = (Inr com2, con2) \<longrightarrow>
      ExperimentByID proj (ExperimentID com1) = Inr exp1 \<longrightarrow>
      ExperimentByID proj (ExperimentID com2) = Inl e \<longrightarrow>
      printDiff Flush os out au proj prefix1 prefix2 con = (out, con2, Some e))"
  by (simp add: printDiff_def)

theorem printDiff_error_no_output_witness:
  "printDiff example_Flush example_orders ''earlier'' plain_aurora
     (example_project (Inr None) (Inr None) example_owner) ''zzz'' ''c0f'' []
     = (''earlier'', [], Some (Errorf ''no checkpoint or experiment with prefix %q'' [''zzz'']))
   \<and> printDiff example_Flush example_orders ''earlier'' plain_aurora
     (example_project (Inr None) (Inr None) example_owner) ''c0f'' ''zzz'' []
     = (''earlier'', [], Some (Errorf ''no checkpoint or experiment with prefix %q'' [''zzz'']))
   \<and> printDiff example_Flush example_orders ''earlier'' plain_aurora
     (example_project (Inr (Some example_dangling)) (Inr None) example_owner) ''e12'' ''c0f'' []
     = (''earlier'', [(''%q matches an experiment, picking the best checkpoint'', [''e12''])],
        Some (Errorf ''no experiment %q'' [''0000000000'']))
   \<and> printDiff example_Flush example_orders ''earlier'' plain_aurora
     (example_project (Inr (Some example_dangling)) (Inr None) example_owner) ''c0f'' ''e12'' []
     = (''earlier'', [(''%q matches an experiment, picking the best checkpoint'', [''e12''])],
        Some (Errorf ''no experiment %q'' [''0000000000'']))"
proof -
  let ?unknown = "Errorf ''no checkpoint or experiment with prefix %q'' [''zzz'']"
  let ?missing = "Errorf ''no experiment %q'' [''0000000000'']"
  let ?notice = "[(''%q matches an experiment, picking the best checkpoint'', [''e12''])]"
  let ?proj = "example_project (Inr None) (Inr None) example_owner"
  let ?proj' = "example_project (Inr (Some example_dangling)) (Inr None) example_owner"
  have unknown: "loadCheckpoint ?proj ''zzz'' [] = (Inl ?unknown, [])"
    by (simp add: loadCheckpoint_def example_project_def)
  have known: "loadCheckpoint (example_project best latest example_owner) ''c0f'' con
      = (Inr example_checkpoint, con)" for best latest con
    by (simp add: loadCheckpoint_def example_project_def)
  have best: "loadCheckpoint ?proj' ''e12'' [] = (Inr example_dangling, ?notice)"
    by (simp add: loadCheckpoint_def example_project_def console_Info_def)
  have owner: "ExperimentByID ?proj' (ExperimentID example_checkpoint) = Inr example_experiment"
    by (simp add: example_project_def example_owner_def example_checkpoint_def)
  have no_owner: "ExperimentByID ?proj' (ExperimentID example_dangling) = Inl ?missing"
    by (simp add: example_project_def example_owner_def example_dangling_def)
  from unknown known best owner no_owner
    printDiff_error_no_output [where proj = ?proj and ?prefix1.0 = "''zzz''" and con = "[]"
      and e = ?unknown and ?con1.0 = "[]" and Flush = example_Flush and os = example_orders
      and out = "''earlier''" and au = plain_aurora and ?prefix2.0 = "''c0f''"]
    printDiff_error_no_output [where proj = ?proj and ?prefix1.0 = "''c0f''" and con = "[]"
      and ?com1.0 = example_checkpoint and ?con1.0 = "[]" and ?prefix2.0 = "''zzz''"
      and e = ?unknown and ?con2.0 = "[]" and Flush = example_Flush and os = example_orders
      and out = "''earlier''" and au = plain_aurora]
    printDiff_error_no_output [where proj = ?proj' and ?prefix1.0 = "''e12''" and con = "[]"
      and ?com1.0 = example_dangling and ?con1.0 = ?notice and ?prefix2.0 = "''c0f''"
      and ?com2.0 = example_checkpoint and ?con2.0 = ?notice
      and e = ?missing and Flush = example_Flush and os = example_orders
      and out = "''earlier''" and au = plain_aurora]
    printDiff_error_no_output [where proj = ?proj' and ?prefix1.0 = "''c0f''" and con = "[]"
      and ?com1.0 = example_checkpoint and ?con1.0 = "[]" and ?prefix2.0 = "''e12''"
      and ?com2.0 = example_dangling and ?con2.0 = ?notice and ?exp1.0 = example_experiment
      and e = ?missing and Flush = example_Flush and os = example_orders
      and out = "''earlier''" and au = plain_aurora]
  show ?thesis
    by simp
qed

end
